theory Spec2Isabelle
  imports Complex_Main "HOL-Library.Sublist"
begin

section \<open>Python values, exceptions and strings\<close>

text \<open>
  The services are Python. Exceptions are values of \<open>error\<close>, carried on the left of a
  sum. Values that come out of \<open>json.loads\<close> or sit in a score dictionary are \<open>pyval\<close>s.
  Python's \<open>int\<close> and \<open>float\<close> are both read as exact rationals: the representation error
  of binary floating point is outside the model. Strings are lists of characters and
  the character classes below are the ASCII ones.
\<close>

datatype error =
    TypeError
  | AttributeError
  | ValueError
  | KeyError
  | JSONDecodeError
  | ExternalError

datatype pyval =
    PNone
  | PBool bool
  | PNum rat
  | PStr string
  | PList "pyval list"
  | PDict "(string \<times> pyval) list"

type_synonym pydict = "string \<rightharpoonup> pyval"

definition and_then :: "error + 'a \<Rightarrow> ('a \<Rightarrow> error + 'b) \<Rightarrow> error + 'b" where
  "and_then r f = (case r of Inl e \<Rightarrow> Inl e | Inr v \<Rightarrow> f v)"

text \<open>\<open>d.get(k, dflt)\<close> on a dictionary.\<close>

definition dict_get :: "pydict \<Rightarrow> string \<Rightarrow> pyval \<Rightarrow> pyval" where
  "dict_get d k dflt = (case d k of None \<Rightarrow> dflt | Some v \<Rightarrow> v)"

text \<open>
  \<open>v.get(k, dflt)\<close> on a decoded JSON value: only a dictionary has the method, every
  other value raises \<open>AttributeError\<close>.
\<close>

fun attr_get :: "pyval \<Rightarrow> string \<Rightarrow> pyval \<Rightarrow> error + pyval" where
  "attr_get (PDict kvs) k dflt = Inr (dict_get (map_of kvs) k dflt)"
| "attr_get v k dflt = Inl AttributeError"

text \<open>Numbers are \<open>int\<close>, \<open>float\<close> and \<open>bool\<close> (\<open>True\<close> is 1).\<close>

fun num_of :: "pyval \<Rightarrow> rat option" where
  "num_of (PNum r) = Some r"
| "num_of (PBool b) = Some (if b then 1 else 0)"
| "num_of v = None"

text \<open>\<open>a + b\<close>: numbers add, strings and lists concatenate, anything else is a \<open>TypeError\<close>.\<close>

fun py_add :: "pyval \<Rightarrow> pyval \<Rightarrow> error + pyval" where
  "py_add (PStr s) (PStr t) = Inr (PStr (s @ t))"
| "py_add (PList xs) (PList ys) = Inr (PList (xs @ ys))"
| "py_add a b =
     (case num_of a of
        None \<Rightarrow> Inl TypeError
      | Some x \<Rightarrow> (case num_of b of None \<Rightarrow> Inl TypeError | Some y \<Rightarrow> Inr (PNum (x + y))))"

text \<open>\<open>a / n\<close> for a non-zero literal \<open>n\<close>: defined on numbers only.\<close>

definition py_truediv :: "pyval \<Rightarrow> rat \<Rightarrow> error + rat" where
  "py_truediv a n = (case num_of a of None \<Rightarrow> Inl TypeError | Some x \<Rightarrow> Inr (x / n))"

text \<open>
  \<open>round(x, 2)\<close>: the nearest multiple of 1/100, a tie going to the even neighbour.
\<close>

definition py_round2 :: "rat \<Rightarrow> rat" where
  "py_round2 x =
     (let y = x * 100; f = \<lfloor>y\<rfloor>; d = y - of_int f
      in of_int (if d < 1 / 2 then f else if 1 / 2 < d then f + 1
                 else if even f then f else f + 1) / 100)"

definition nl :: string where
  "nl = [CHR 0x0A]"

text \<open>\<open>sep.join(parts)\<close>\<close>

fun str_join :: "string \<Rightarrow> string list \<Rightarrow> string" where
  "str_join sep [] = []"
| "str_join sep [x] = x"
| "str_join sep (x # y # ys) = x @ sep @ str_join sep (y # ys)"

text \<open>\<open>s.lower()\<close> on ASCII text.\<close>

definition lower_char :: "char \<Rightarrow> char" where
  "lower_char c =
     (case map_of (zip ''ABCDEFGHIJKLMNOPQRSTUVWXYZ'' ''abcdefghijklmnopqrstuvwxyz'') c of
        None \<Rightarrow> c
      | Some l \<Rightarrow> l)"

definition lower :: "string \<Rightarrow> string" where
  "lower s = map lower_char s"

text \<open>The characters \<open>str.split()\<close> treats as whitespace, within ASCII.\<close>

definition is_space :: "char \<Rightarrow> bool" where
  "is_space c \<longleftrightarrow>
     c \<in> set [CHR '' '', CHR 0x09, CHR 0x0A, CHR 0x0B, CHR 0x0C, CHR 0x0D,
               CHR 0x1C, CHR 0x1D, CHR 0x1E, CHR 0x1F]"

text \<open>\<open>s.split()\<close>: the maximal runs of non-whitespace characters.\<close>

fun split_from :: "string \<Rightarrow> string \<Rightarrow> string list" where
  "split_from cur [] = (if cur = [] then [] else [cur])"
| "split_from cur (c # cs) =
     (if is_space c then (if cur = [] then split_from [] cs else cur # split_from [] cs)
      else split_from (cur @ [c]) cs)"

definition py_split :: "string \<Rightarrow> string list" where
  "py_split s = split_from [] s"

text \<open>\<open>s.find(c)\<close> and \<open>s.rfind(c)\<close> for a one-character needle: an index, or -1.\<close>

fun find_from :: "char \<Rightarrow> string \<Rightarrow> int \<Rightarrow> int" where
  "find_from c [] i = - 1"
| "find_from c (x # xs) i = (if x = c then i else find_from c xs (i + 1))"

definition py_find :: "char \<Rightarrow> string \<Rightarrow> int" where
  "py_find c s = find_from c s 0"

definition py_rfind :: "char \<Rightarrow> string \<Rightarrow> int" where
  "py_rfind c s =
     (let j = py_find c (rev s) in if j < 0 then - 1 else int (length s) - 1 - j)"

text \<open>\<open>s[start:end]\<close> for \<open>0 \<le> start\<close> and \<open>0 \<le> end\<close>.\<close>

definition py_slice :: "string \<Rightarrow> int \<Rightarrow> int \<Rightarrow> string" where
  "py_slice s start end = take (nat (end - start)) (drop (nat start) s)"

section \<open>The interaction model\<close>

datatype MessageRole = SYSTEM | ASSISTANT | USER | TOOL

text \<open>
  The columns of \<open>AIInterviewInteraction\<close> that the assessment reads.
\<close>

record AIInterviewInteraction =
  role :: MessageRole
  content :: string
  audio_duration_seconds :: "rat option"

text \<open>The column of \<open>AIInterviewSession\<close> that the assessment reads.\<close>

record AIInterviewSession =
  session_interview_type :: string

section \<open>The assessment service\<close>

subsection \<open>The model and the JSON decoder\<close>

text \<open>
  The language model and \<open>json.loads\<close> are not code of the repository: both are parameters.
  A prompt is kept as the data the source interpolates into it (the fixed wording of the
  instructions is left out), and the model answers with the text of its reply or raises.
  Every call is appended to a log of the prompts issued.
\<close>

datatype prompt =
    CommunicationPrompt string rat nat
  | ContentPrompt string string
  | BehavioralPrompt string
  | FeedbackPrompt string "pyval list" string

type_synonym llm = "prompt \<Rightarrow> error + string"
type_synonym json_loads = "string \<Rightarrow> error + pyval"

definition ainvoke :: "llm \<Rightarrow> prompt \<Rightarrow> prompt list \<Rightarrow> (error + string) \<times> prompt list" where
  "ainvoke model p calls = (model p, calls @ [p])"

subsection \<open>\<open>_build_transcript\<close>\<close>

definition role_label :: "AIInterviewInteraction \<Rightarrow> string" where
  "role_label interaction = (if role interaction = ASSISTANT then ''Interviewer'' else ''Candidate'')"

fun transcript_lines :: "AIInterviewInteraction list \<Rightarrow> string list \<Rightarrow> string list" where
  "transcript_lines [] lines = lines"
| "transcript_lines (interaction # rest) lines =
     transcript_lines rest (lines @ [role_label interaction @ '': '' @ content interaction])"

definition build_transcript :: "AIInterviewInteraction list \<Rightarrow> string" where
  "build_transcript interactions = str_join (nl @ nl) (transcript_lines interactions [])"

subsection \<open>\<open>_parse_json_response\<close>\<close>

text \<open>The text handed to the decoder: from the first opening brace to the last closing one.\<close>

definition json_str :: "string \<Rightarrow> string" where
  "json_str response =
     (let start = py_find (CHR ''{'') response;
          end = py_rfind (CHR ''}'') response + 1
      in if 0 \<le> start \<and> start < end then py_slice response start end else response)"

definition parse_json_response :: "json_loads \<Rightarrow> string \<Rightarrow> pyval" where
  "parse_json_response loads response =
     (case loads (json_str response) of Inl e \<Rightarrow> PDict [] | Inr v \<Rightarrow> v)"

subsection \<open>Speech metrics of \<open>_assess_communication\<close>\<close>

text \<open>
  The pattern \<open>\b(um|uh|like|you know|basically|actually|literally)\b\<close> under \<open>re.findall\<close>.
  \<open>\w\<close> is a letter, a digit or the underscore; \<open>\b\<close> holds between two positions of
  which exactly one is a word character (the ends of the text count as none).
\<close>

definition is_word_char :: "char \<Rightarrow> bool" where
  "is_word_char c \<longleftrightarrow>
     c \<in> set ''abcdefghijklmnopqrstuvwxyzABCDEFGHIJKLMNOPQRSTUVWXYZ0123456789_''"

definition filler_lexicon :: "string list" where
  "filler_lexicon =
     [''um'', ''uh'', ''like'', ''you know'', ''basically'', ''actually'', ''literally'']"

definition first_char :: "string \<Rightarrow> char option" where
  "first_char s = (case s of [] \<Rightarrow> None | c # cs \<Rightarrow> Some c)"

definition word_boundary :: "char option \<Rightarrow> char option \<Rightarrow> bool" where
  "word_boundary prev succ \<longleftrightarrow>
     (case prev of None \<Rightarrow> False | Some c \<Rightarrow> is_word_char c) \<noteq>
     (case succ of None \<Rightarrow> False | Some c \<Rightarrow> is_word_char c)"

text \<open>
  A match that starts here: \<open>\b\<close>, then the first alternative that is a prefix of the
  rest and is followed by \<open>\b\<close>. \<open>prev\<close> is the character in front of this position.
\<close>

definition match_at :: "char option \<Rightarrow> string \<Rightarrow> string option" where
  "match_at prev s =
     (if word_boundary prev (first_char s)
      then List.find (\<lambda>w. prefix w s \<and>
             word_boundary (Some (last w)) (first_char (drop (length w) s))) filler_lexicon
      else None)"

text \<open>
  \<open>re.findall\<close>: scan from the left; after a match the scan resumes behind it, otherwise
  one character further.
\<close>

function findall_fillers :: "char option \<Rightarrow> string \<Rightarrow> string list" where
  "findall_fillers prev [] = []"
| "findall_fillers prev (c # cs) =
     (case match_at prev (c # cs) of
        None \<Rightarrow> findall_fillers (Some c) cs
      | Some w \<Rightarrow> w # findall_fillers (Some (last w)) (drop (length w) (c # cs)))"
  by pat_completeness auto
termination
proof (relation "measure (\<lambda>(prev, s). length s)")
  fix prev :: "char option" and c :: char and cs w
  assume "match_at prev (c # cs) = Some w"
  then have "w \<in> set filler_lexicon"
    by (auto simp: match_at_def find_Some_iff split: if_splits)
  then have "w \<noteq> []"
    by (auto simp: filler_lexicon_def)
  then show "((Some (last w), drop (length w) (c # cs)), prev, c # cs)
               \<in> measure (\<lambda>(prev, s). length s)"
    by simp
qed simp_all

text \<open>The loop over the candidate's turns: words, seconds of audio, filler words.\<close>

fun speech_metrics ::
  "AIInterviewInteraction list \<Rightarrow> nat \<times> rat \<times> nat \<Rightarrow> nat \<times> rat \<times> nat" where
  "speech_metrics [] totals = totals"
| "speech_metrics (interaction # rest) (total_words, total_duration, filler_words) =
     speech_metrics rest
       (total_words + length (py_split (content interaction)),
        (case audio_duration_seconds interaction of
           None \<Rightarrow> total_duration
         | Some d \<Rightarrow> if d = 0 then total_duration else total_duration + d),
        filler_words + length (findall_fillers None (lower (content interaction))))"

definition candidate_interactions :: "AIInterviewInteraction list \<Rightarrow> AIInterviewInteraction list" where
  "candidate_interactions interactions = filter (\<lambda>i. role i = USER) interactions"

definition words_per_minute :: "nat \<Rightarrow> rat \<Rightarrow> rat" where
  "words_per_minute total_words total_duration =
     (if 0 < total_duration then of_nat total_words / total_duration * 60 else 150)"

subsection \<open>The three scoring passes\<close>

text \<open>
  Each pass is a \<open>try\<close> block with a handler: the block is a computation that may raise
  (the model call, \<open>.get\<close> on what the decoder returned, the arithmetic), the handler
  replaces whatever it raised by the fixed dictionary.
\<close>

definition communication_scores_of ::
  "json_loads \<Rightarrow> rat \<Rightarrow> nat \<Rightarrow> error + string \<Rightarrow> error + pydict" where
  "communication_scores_of loads wpm filler_words response =
     and_then response (\<lambda>text.
     let scores = parse_json_response loads text in
     and_then (attr_get scores ''clarity'' (PNum 70)) (\<lambda>c.
     and_then (attr_get scores ''confidence'' (PNum 70)) (\<lambda>f.
     and_then (py_add c f) (\<lambda>cf.
     and_then (py_truediv cf 2) (\<lambda>verbal.
     and_then (attr_get scores ''clarity'' (PNum 70)) (\<lambda>clarity.
     and_then (attr_get scores ''confidence'' (PNum 70)) (\<lambda>confidence.
     and_then (attr_get scores ''pace'' (PNum 70)) (\<lambda>pace.
     Inr (map_of
       [(''verbal_communication_score'', PNum verbal),
        (''clarity_score'', clarity),
        (''confidence_score'', confidence),
        (''pace_score'', pace),
        (''words_per_minute'', PNum wpm),
        (''filler_word_count'', PNum (of_nat filler_words))])))))))))"

definition communication_fallback :: "rat \<Rightarrow> nat \<Rightarrow> pydict" where
  "communication_fallback wpm filler_words =
     map_of
       [(''verbal_communication_score'', PNum 70),
        (''clarity_score'', PNum 70),
        (''confidence_score'', PNum 70),
        (''pace_score'', PNum 70),
        (''words_per_minute'', PNum wpm),
        (''filler_word_count'', PNum (of_nat filler_words))]"

definition assess_communication ::
  "llm \<Rightarrow> json_loads \<Rightarrow> string \<Rightarrow> AIInterviewInteraction list \<Rightarrow> prompt list
     \<Rightarrow> pydict \<times> prompt list" where
  "assess_communication model loads transcript interactions calls =
     (case speech_metrics (candidate_interactions interactions) (0, 0, 0) of
        (total_words, total_duration, filler_words) \<Rightarrow>
          let wpm = words_per_minute total_words total_duration in
          (case ainvoke model (CommunicationPrompt transcript wpm filler_words) calls of
             (response, calls') \<Rightarrow>
               (case communication_scores_of loads wpm filler_words response of
                  Inr scores \<Rightarrow> (scores, calls')
                | Inl e \<Rightarrow> (communication_fallback wpm filler_words, calls'))))"

definition content_scores_of :: "json_loads \<Rightarrow> error + string \<Rightarrow> error + pydict" where
  "content_scores_of loads response =
     and_then response (\<lambda>text.
     let scores = parse_json_response loads text in
     and_then (attr_get scores ''technical_accuracy'' (PNum 70)) (\<lambda>technical_accuracy.
     and_then (attr_get scores ''problem_solving'' (PNum 70)) (\<lambda>problem_solving.
     and_then (attr_get scores ''structure'' (PNum 70)) (\<lambda>structure.
     and_then (attr_get scores ''relevance'' (PNum 70)) (\<lambda>relevance.
     Inr (map_of
       [(''technical_accuracy_score'', technical_accuracy),
        (''problem_solving_score'', problem_solving),
        (''structure_score'', structure),
        (''relevance_score'', relevance)]))))))"

definition content_fallback :: pydict where
  "content_fallback =
     map_of
       [(''technical_accuracy_score'', PNum 70),
        (''problem_solving_score'', PNum 70),
        (''structure_score'', PNum 70),
        (''relevance_score'', PNum 70)]"

definition assess_content ::
  "llm \<Rightarrow> json_loads \<Rightarrow> string \<Rightarrow> string \<Rightarrow> prompt list \<Rightarrow> pydict \<times> prompt list" where
  "assess_content model loads transcript itype calls =
     (case ainvoke model (ContentPrompt itype transcript) calls of
        (response, calls') \<Rightarrow>
          (case content_scores_of loads response of
             Inr scores \<Rightarrow> (scores, calls')
           | Inl e \<Rightarrow> (content_fallback, calls')))"

definition behavioral_scores_of :: "json_loads \<Rightarrow> error + string \<Rightarrow> error + pydict" where
  "behavioral_scores_of loads response =
     and_then response (\<lambda>text.
     let scores = parse_json_response loads text in
     and_then (attr_get scores ''star_method'' (PNum 70)) (\<lambda>star_method.
     and_then (attr_get scores ''leadership'' (PNum 70)) (\<lambda>leadership.
     and_then (attr_get scores ''teamwork'' (PNum 70)) (\<lambda>teamwork.
     Inr (map_of
       [(''star_method_score'', star_method),
        (''leadership_score'', leadership),
        (''teamwork_score'', teamwork)])))))"

definition behavioral_fallback :: pydict where
  "behavioral_fallback =
     map_of
       [(''star_method_score'', PNum 70),
        (''leadership_score'', PNum 70),
        (''teamwork_score'', PNum 70)]"

definition behavioral_not_applicable :: pydict where
  "behavioral_not_applicable =
     map_of
       [(''star_method_score'', PNone),
        (''leadership_score'', PNone),
        (''teamwork_score'', PNone)]"

definition assess_behavioral ::
  "llm \<Rightarrow> json_loads \<Rightarrow> string \<Rightarrow> string \<Rightarrow> prompt list \<Rightarrow> pydict \<times> prompt list" where
  "assess_behavioral model loads transcript itype calls =
     (if lower itype \<noteq> ''behavioral'' then (behavioral_not_applicable, calls)
      else
        (case ainvoke model (BehavioralPrompt transcript) calls of
           (response, calls') \<Rightarrow>
             (case behavioral_scores_of loads response of
                Inr scores \<Rightarrow> (scores, calls')
              | Inl e \<Rightarrow> (behavioral_fallback, calls'))))"

subsection \<open>\<open>_generate_overall_feedback\<close>\<close>

definition feedback_of :: "json_loads \<Rightarrow> error + string \<Rightarrow> error + pydict" where
  "feedback_of loads response =
     and_then response (\<lambda>text.
     let feedback = parse_json_response loads text in
     and_then (attr_get feedback ''strengths'' (PList [])) (\<lambda>strengths.
     and_then (attr_get feedback ''improvements'' (PList [])) (\<lambda>improvements.
     and_then (attr_get feedback ''detailed_feedback'' (PStr [])) (\<lambda>detailed_feedback.
     and_then (attr_get feedback ''next_steps'' (PList [])) (\<lambda>next_steps.
     and_then (attr_get feedback ''recommended_topics'' (PList [])) (\<lambda>recommended_topics.
     Inr (map_of
       [(''strengths'', strengths),
        (''weaknesses'', improvements),
        (''detailed_feedback'', detailed_feedback),
        (''next_steps'', next_steps),
        (''recommended_topics'', recommended_topics)])))))))"

definition feedback_fallback :: pydict where
  "feedback_fallback =
     map_of
       [(''strengths'', PList [PStr ''Completed the interview'', PStr ''Engaged with questions'']),
        (''weaknesses'', PList [PStr ''Could provide more specific examples'']),
        (''detailed_feedback'', PStr ''Overall decent performance with room for improvement.''),
        (''next_steps'', PList [PStr ''Practice more interview questions'']),
        (''recommended_topics'', PList [PStr ''Interview techniques''])]"

definition scores_summary :: "pydict \<Rightarrow> pydict \<Rightarrow> pyval list" where
  "scores_summary communication_scores content_scores =
     [dict_get communication_scores ''clarity_score'' (PNum 0),
      dict_get communication_scores ''confidence_score'' (PNum 0),
      dict_get communication_scores ''pace_score'' (PNum 0),
      dict_get content_scores ''technical_accuracy_score'' (PNum 0),
      dict_get content_scores ''problem_solving_score'' (PNum 0),
      dict_get content_scores ''structure_score'' (PNum 0),
      dict_get content_scores ''relevance_score'' (PNum 0)]"

definition generate_overall_feedback ::
  "llm \<Rightarrow> json_loads \<Rightarrow> string \<Rightarrow> string \<Rightarrow> pydict \<Rightarrow> pydict \<Rightarrow> pydict \<Rightarrow> prompt list
     \<Rightarrow> pydict \<times> prompt list" where
  "generate_overall_feedback model loads transcript itype communication_scores content_scores
       behavioral_scores calls =
     (case ainvoke model
             (FeedbackPrompt itype (scores_summary communication_scores content_scores) transcript)
             calls of
        (response, calls') \<Rightarrow>
          (case feedback_of loads response of
             Inr feedback \<Rightarrow> (feedback, calls')
           | Inl e \<Rightarrow> (feedback_fallback, calls')))"

subsection \<open>\<open>_calculate_overall_score\<close>\<close>

definition calculate_overall_score :: "pydict \<Rightarrow> pydict \<Rightarrow> pydict \<Rightarrow> error + rat" where
  "calculate_overall_score communication_scores content_scores behavioral_scores =
     and_then (py_add (dict_get communication_scores ''clarity_score'' (PNum 0))
                      (dict_get communication_scores ''confidence_score'' (PNum 0))) (\<lambda>c2.
     and_then (py_add c2 (dict_get communication_scores ''pace_score'' (PNum 0))) (\<lambda>c3.
     and_then (py_truediv c3 3) (\<lambda>comm_avg.
     let scores = [] @ [comm_avg * (30 / 100)] in
     and_then (py_add (dict_get content_scores ''technical_accuracy_score'' (PNum 0))
                      (dict_get content_scores ''problem_solving_score'' (PNum 0))) (\<lambda>t2.
     and_then (py_add t2 (dict_get content_scores ''structure_score'' (PNum 0))) (\<lambda>t3.
     and_then (py_add t3 (dict_get content_scores ''relevance_score'' (PNum 0))) (\<lambda>t4.
     and_then (py_truediv t4 4) (\<lambda>content_avg.
     let scores = scores @ [content_avg * (50 / 100)] in
     and_then
       (if dict_get behavioral_scores ''star_method_score'' PNone \<noteq> PNone
        then
          and_then (py_add (dict_get behavioral_scores ''star_method_score'' (PNum 0))
                           (dict_get behavioral_scores ''leadership_score'' (PNum 0))) (\<lambda>b2.
          and_then (py_add b2 (dict_get behavioral_scores ''teamwork_score'' (PNum 0))) (\<lambda>b3.
          and_then (py_truediv b3 3) (\<lambda>behavioral_avg.
          Inr (scores @ [behavioral_avg * (20 / 100)]))))
        else Inr scores) (\<lambda>scores.
     Inr (py_round2 (sum_list scores))))))))))"

subsection \<open>\<open>assess_interview_session\<close>\<close>

text \<open>
  The database reads are the arguments (the session row, if there is one, and its
  interactions in order of creation); the write-back of the bundle to the session row and
  the wall-clock stamp \<open>assessed_at\<close> are left out. The result is what the method returns
  or raises, with the log of the model calls it made.
\<close>

record assessment =
  overall_score :: rat
  communication_scores :: pydict
  content_scores :: pydict
  behavioral_scores :: pydict
  feedback :: pydict

definition assess_interview_session ::
  "llm \<Rightarrow> json_loads \<Rightarrow> AIInterviewSession option \<Rightarrow> AIInterviewInteraction list
     \<Rightarrow> (error + assessment) \<times> prompt list" where
  "assess_interview_session model loads session interactions =
     (case session of
        None \<Rightarrow> (Inl ValueError, [])
      | Some sess \<Rightarrow>
          let transcript = build_transcript interactions in
          (case assess_communication model loads transcript interactions [] of
             (comm, calls1) \<Rightarrow>
          (case assess_content model loads transcript (session_interview_type sess) calls1 of
             (cont, calls2) \<Rightarrow>
          (case assess_behavioral model loads transcript (session_interview_type sess) calls2 of
             (behav, calls3) \<Rightarrow>
          (case generate_overall_feedback model loads transcript (session_interview_type sess)
                  comm cont behav calls3 of
             (fb, calls4) \<Rightarrow>
               (case calculate_overall_score comm cont behav of
                  Inl e \<Rightarrow> (Inl e, calls4)
                | Inr overall \<Rightarrow>
                    (Inr \<lparr>overall_score = overall, communication_scores = comm,
                          content_scores = cont, behavioral_scores = behav, feedback = fb\<rparr>,
                     calls4)))))))"

section \<open>The interview workflow\<close>

subsection \<open>State and collaborators\<close>

datatype message = HumanMessage string | AIMessage string | SystemMessage string

record analysis =
  response_length :: nat
  word_count :: nat
  timestamp :: string

record InterviewState =
  messages :: "message list"
  user_id :: int
  session_id :: int
  interview_type :: string
  user_context :: string
  current_question_count :: int
  max_questions :: int
  session_status :: string
  analysis_results :: "string \<rightharpoonup> analysis"

text \<open>
  The chat model answers a list of messages with a message, or raises; the clock gives
  the text of \<open>datetime.utcnow().isoformat()\<close> at the analysis of a given question. Both
  are parameters.
\<close>

type_synonym chat_model = "message list \<Rightarrow> error + message"
type_synonym clock = "int \<Rightarrow> string"

text \<open>\<open>str(n)\<close> for an integer, as an f-string prints it.\<close>

definition digit_char :: "nat \<Rightarrow> char" where
  "digit_char d = ''0123456789'' ! d"

function str_nat :: "nat \<Rightarrow> string" where
  "str_nat n = (if n < 10 then [digit_char n] else str_nat (n div 10) @ [digit_char (n mod 10)])"
  by pat_completeness auto
termination
  by (relation "measure id") auto

declare str_nat.simps [simp del]

definition str_int :: "int \<Rightarrow> string" where
  "str_int i = (if i < 0 then ''-'' @ str_nat (nat (- i)) else str_nat (nat i))"

definition message_content :: "message \<Rightarrow> string" where
  "message_content m = (case m of HumanMessage c \<Rightarrow> c | AIMessage c \<Rightarrow> c | SystemMessage c \<Rightarrow> c)"

definition is_human :: "message \<Rightarrow> bool" where
  "is_human m = (case m of HumanMessage c \<Rightarrow> True | _ \<Rightarrow> False)"

subsection \<open>The nodes\<close>

text \<open>
  \<open>_prepare_context_node\<close>. Its \<open>try\<close> block reads two keys of the state and assigns five;
  on a state that has all its keys nothing in it raises.
\<close>

definition prepare_context_node :: "InterviewState \<Rightarrow> InterviewState" where
  "prepare_context_node state =
     state\<lparr>user_context :=
             ''User ID: '' @ str_int (user_id state) @ '', Interview Type: '' @ interview_type state,
           current_question_count := 0,
           max_questions := 5,
           session_status := ''active'',
           analysis_results := Map.empty\<rparr>"

definition system_message :: "InterviewState \<Rightarrow> message" where
  "system_message state =
     SystemMessage
       (''You are an expert interview coach conducting a '' @ interview_type state @ '' interview.''
        @ nl @ nl @ ''User Context:'' @ nl @ user_context state @ nl @ nl
        @ ''Your task is to ask relevant interview questions, provide constructive feedback, and help the candidate improve.''
        @ nl @ ''You've asked '' @ str_int (current_question_count state) @ '' of ''
        @ str_int (max_questions state) @ '' questions so far.'')"

definition error_message :: message where
  "error_message = AIMessage ''I apologize, but I encountered an error. Let's continue.''"

definition conduct_interview_node :: "chat_model \<Rightarrow> InterviewState \<Rightarrow> InterviewState" where
  "conduct_interview_node model state =
     (case model ([system_message state] @ messages state) of
        Inr response \<Rightarrow> state\<lparr>messages := messages state @ [response]\<rparr>
      | Inl e \<Rightarrow> state\<lparr>messages := messages state @ [error_message]\<rparr>)"

definition analyze_response_node :: "clock \<Rightarrow> InterviewState \<Rightarrow> InterviewState" where
  "analyze_response_node utcnow state =
     (let user_messages = filter is_human (messages state) in
      if user_messages = [] then state
      else
        let last_response = message_content (last user_messages);
            question_num = current_question_count state
        in state\<lparr>analysis_results :=
             (analysis_results state)
               (''question_'' @ str_int question_num \<mapsto>
                  \<lparr>response_length = length last_response,
                   word_count = length (py_split last_response),
                   timestamp = utcnow question_num\<rparr>)\<rparr>)"

definition check_completion_node :: "InterviewState \<Rightarrow> InterviewState" where
  "check_completion_node state =
     (let state = state\<lparr>current_question_count := current_question_count state + 1\<rparr>
      in if max_questions state \<le> current_question_count state
         then state\<lparr>session_status := ''completed''\<rparr>
         else state)"

definition should_continue :: "InterviewState \<Rightarrow> string" where
  "should_continue state = (if session_status state = ''completed'' then ''end'' else ''continue'')"

definition feedback_prompt :: "InterviewState \<Rightarrow> string" where
  "feedback_prompt state =
     ''Based on the interview conversation above, provide comprehensive feedback.'' @ nl @ nl
     @ ''Interview Type: '' @ interview_type state @ nl
     @ ''Questions Asked: '' @ str_int (current_question_count state) @ nl @ nl
     @ ''Provide:'' @ nl
     @ ''1. Overall assessment'' @ nl
     @ ''2. Key strengths demonstrated'' @ nl
     @ ''3. Areas for improvement'' @ nl
     @ ''4. Specific recommendations'' @ nl @ nl
     @ ''Format as JSON with keys: overall_assessment, strengths (array), improvements (array), recommendations (array)''"

definition generate_feedback_node :: "chat_model \<Rightarrow> InterviewState \<Rightarrow> InterviewState" where
  "generate_feedback_node model state =
     (case model (messages state @ [HumanMessage (feedback_prompt state)]) of
        Inr response \<Rightarrow> state\<lparr>messages := messages state @ [response]\<rparr>
      | Inl e \<Rightarrow> state)"

subsection \<open>The graph of \<open>_build_workflow\<close>\<close>

datatype node =
    prepare_context
  | conduct_interview
  | analyze_response
  | generate_feedback
  | check_completion
  | END

definition entry_point :: node where
  "entry_point = prepare_context"

fun run_node :: "chat_model \<Rightarrow> clock \<Rightarrow> node \<Rightarrow> InterviewState \<Rightarrow> InterviewState" where
  "run_node model utcnow prepare_context state = prepare_context_node state"
| "run_node model utcnow conduct_interview state = conduct_interview_node model state"
| "run_node model utcnow analyze_response state = analyze_response_node utcnow state"
| "run_node model utcnow generate_feedback state = generate_feedback_node model state"
| "run_node model utcnow check_completion state = check_completion_node state"
| "run_node model utcnow END state = state"

text \<open>The edge taken after a node has run, on the state the node returned.\<close>

fun next_node :: "node \<Rightarrow> InterviewState \<Rightarrow> node" where
  "next_node prepare_context state = conduct_interview"
| "next_node conduct_interview state = analyze_response"
| "next_node analyze_response state = check_completion"
| "next_node check_completion state =
     (if should_continue state = ''continue'' then conduct_interview else generate_feedback)"
| "next_node generate_feedback state = END"
| "next_node END state = END"

text \<open>
  A run of the graph from a node: the nodes executed, in order, and the final state.
  The measure counts the node executions that are left.
\<close>

definition steps_left :: "node \<Rightarrow> InterviewState \<Rightarrow> nat" where
  "steps_left n state =
     (let d = 3 * nat (max_questions state - current_question_count state) in
      case n of
        prepare_context \<Rightarrow> 20
      | conduct_interview \<Rightarrow> d + 4
      | analyze_response \<Rightarrow> d + 3
      | check_completion \<Rightarrow> d + 2
      | generate_feedback \<Rightarrow> 1
      | END \<Rightarrow> 0)"

function run_from ::
  "chat_model \<Rightarrow> clock \<Rightarrow> node \<Rightarrow> InterviewState \<Rightarrow> node list \<times> InterviewState" where
  "run_from model utcnow n state =
     (if n = END then ([], state)
      else
        (case run_from model utcnow (next_node n (run_node model utcnow n state))
                (run_node model utcnow n state) of
           (trace, final) \<Rightarrow> (n # trace, final)))"
  by pat_completeness auto
termination
proof (relation "measure (\<lambda>(model, utcnow, n, state). steps_left n state)")
  fix model :: chat_model and utcnow :: clock and n :: node and state :: InterviewState
  assume "n \<noteq> END"
  then have "steps_left (next_node n (run_node model utcnow n state)) (run_node model utcnow n state)
               < steps_left n state"
    by (cases n)
       (auto simp: steps_left_def prepare_context_node_def conduct_interview_node_def
          analyze_response_node_def check_completion_node_def generate_feedback_node_def
          should_continue_def Let_def split: sum.splits)
  then show "((model, utcnow, next_node n (run_node model utcnow n state),
               run_node model utcnow n state), model, utcnow, n, state)
             \<in> measure (\<lambda>(model, utcnow, n, state). steps_left n state)"
    by simp
qed simp

declare run_from.simps [simp del]

definition run_workflow :: "chat_model \<Rightarrow> clock \<Rightarrow> InterviewState \<Rightarrow> node list \<times> InterviewState" where
  "run_workflow model utcnow state = run_from model utcnow entry_point state"

section \<open>The retrieval service\<close>

text \<open>
  The vector store is not code of the repository: \<open>similarity_search(query, k, filter)\<close>
  is a parameter that answers with the stored documents it ranks first for the user, or
  raises. A context entry is the dictionary \<open>retrieve_user_context\<close> builds, kept as the
  list of its items.
\<close>

record Document =
  page_content :: string
  metadata :: "(string \<times> pyval) list"

type_synonym vector_store = "string \<Rightarrow> int \<Rightarrow> int \<Rightarrow> error + Document list"
type_synonym context_doc = "(string \<times> pyval) list"

fun context_docs_loop :: "Document list \<Rightarrow> context_doc list \<Rightarrow> context_doc list" where
  "context_docs_loop [] context_docs = context_docs"
| "context_docs_loop (doc # rest) context_docs =
     context_docs_loop rest
       (context_docs @
          [[(''content'', PStr (page_content doc)),
            (''metadata'', PDict (metadata doc)),
            (''type'', dict_get (map_of (metadata doc)) ''type'' (PStr ''unknown''))]])"

definition retrieve_user_context ::
  "vector_store \<Rightarrow> int \<Rightarrow> string option \<Rightarrow> int \<Rightarrow> context_doc list" where
  "retrieve_user_context similarity_search uid query k =
     (case (case query of
              None \<Rightarrow> similarity_search ''user profile interview history'' k uid
            | Some q \<Rightarrow>
                if q \<noteq> [] then similarity_search q k uid
                else similarity_search ''user profile interview history'' k uid) of
        Inr results \<Rightarrow> context_docs_loop results []
      | Inl e \<Rightarrow> [])"

text \<open>\<open>doc[key]\<close> on a dictionary, and \<open>sep.join\<close> over a list that must hold strings.\<close>

definition subscript :: "context_doc \<Rightarrow> string \<Rightarrow> error + pyval" where
  "subscript d k = (case map_of d k of None \<Rightarrow> Inl KeyError | Some v \<Rightarrow> Inr v)"

fun content_parts :: "context_doc list \<Rightarrow> error + pyval list" where
  "content_parts [] = Inr []"
| "content_parts (doc # rest) =
     and_then (subscript doc ''content'') (\<lambda>c.
     and_then (content_parts rest) (\<lambda>cs. Inr (c # cs)))"

fun str_items :: "pyval list \<Rightarrow> error + string list" where
  "str_items [] = Inr []"
| "str_items (PStr s # rest) = and_then (str_items rest) (\<lambda>ss. Inr (s # ss))"
| "str_items (v # rest) = Inl TypeError"

definition personalized_prompt :: "string \<Rightarrow> string \<Rightarrow> string" where
  "personalized_prompt itype context_text =
     ''You are an experienced interview coach conducting a '' @ itype @ '' interview.'' @ nl @ nl
     @ ''**Candidate Context:**'' @ nl
     @ context_text @ nl @ nl
     @ ''**Your Role:**'' @ nl
     @ ''- Conduct a realistic '' @ itype @ '' interview'' @ nl
     @ ''- Ask relevant questions based on the candidate's background and experience'' @ nl
     @ ''- Provide real-time feedback and encouragement'' @ nl
     @ ''- Adapt questions based on the candidate's responses'' @ nl
     @ ''- Be supportive but maintain professional interview standards'' @ nl
     @ ''- After each response, provide brief constructive feedback before moving to the next question''
     @ nl @ nl
     @ ''**Interview Guidelines:**'' @ nl
     @ ''- Start with a personalized introduction that references the candidate's background'' @ nl
     @ ''- Ask 3-5 relevant questions for this interview session'' @ nl
     @ ''- Listen carefully to responses and ask follow-up questions when needed'' @ nl
     @ ''- Provide balanced feedback highlighting both strengths and areas for improvement'' @ nl
     @ ''- End with actionable recommendations for improvement'' @ nl @ nl
     @ ''Begin the interview now with a warm, personalized introduction.''"

definition fallback_prompt :: "string \<Rightarrow> string" where
  "fallback_prompt itype =
     ''You are an experienced interview coach conducting a '' @ itype @ '' interview.'' @ nl
     @ ''Introduce yourself and begin asking relevant interview questions.''"

definition build_personalized_prompt :: "vector_store \<Rightarrow> int \<Rightarrow> string \<Rightarrow> string" where
  "build_personalized_prompt similarity_search uid itype =
     (let context_docs =
            retrieve_user_context similarity_search uid (Some (itype @ '' interview preparation'')) 5
      in case and_then (content_parts context_docs) (\<lambda>parts.
              and_then (if parts \<noteq> [] then and_then (str_items parts) (\<lambda>ss. Inr (str_join (nl @ nl) ss))
                        else Inr ''No previous context available.'') (\<lambda>context_text.
              Inr (personalized_prompt itype context_text))) of
           Inr p \<Rightarrow> p
         | Inl e \<Rightarrow> fallback_prompt itype)"

section \<open>Notions used to state the properties\<close>

text \<open>The transcript a prompt carries.\<close>

definition prompt_transcript :: "prompt \<Rightarrow> string" where
  "prompt_transcript p =
     (case p of
        CommunicationPrompt t w f \<Rightarrow> t
      | ContentPrompt ty t \<Rightarrow> t
      | BehavioralPrompt t \<Rightarrow> t
      | FeedbackPrompt ty sc t \<Rightarrow> t)"

text \<open>Concrete inputs on which the theorems below are exercised.\<close>

definition example_interactions :: "AIInterviewInteraction list" where
  "example_interactions =
     [\<lparr>role = SYSTEM, content = ''Session opened'', audio_duration_seconds = None\<rparr>,
      \<lparr>role = ASSISTANT, content = ''Tell me about a project.'', audio_duration_seconds = None\<rparr>,
      \<lparr>role = USER, content = ''Like totally, I liked it'', audio_duration_seconds = Some 6\<rparr>,
      \<lparr>role = TOOL, content = ''lookup done'', audio_duration_seconds = None\<rparr>]"

definition failing_llm :: llm where
  "failing_llm p = Inl ExternalError"

definition failing_loads :: json_loads where
  "failing_loads s = Inl JSONDecodeError"


text \<open>One pass through the loop of the graph: conduct, analyze, check.\<close>

definition cycle :: "chat_model \<Rightarrow> clock \<Rightarrow> InterviewState \<Rightarrow> InterviewState" where
  "cycle model utcnow state =
     check_completion_node (analyze_response_node utcnow (conduct_interview_node model state))"

definition failing_chat :: chat_model where
  "failing_chat msgs = Inl ExternalError"

definition example_clock :: clock where
  "example_clock n = ''2024-01-01T00:00:0'' @ str_int n"

definition example_state :: InterviewState where
  "example_state =
     \<lparr>messages = [HumanMessage ''Hello, I am ready.''], user_id = 7, session_id = 12,
      interview_type = ''general'', user_context = [], current_question_count = 0,
      max_questions = 5, session_status = ''initializing'', analysis_results = Map.empty\<rparr>"

text \<open>The number read from \<open>d.get(k, 0)\<close>, if it is one.\<close>

definition score_of :: "pydict \<Rightarrow> string \<Rightarrow> rat option" where
  "score_of d k = num_of (dict_get d k (PNum 0))"


text \<open>
  The span the specification describes: from the first opening brace to the closing brace
  that balances it, if there is one.
\<close>

fun balanced_prefix :: "nat \<Rightarrow> string \<Rightarrow> string option" where
  "balanced_prefix depth [] = None"
| "balanced_prefix depth (c # cs) =
     (if c = CHR ''{'' then map_option ((#) c) (balanced_prefix (Suc depth) cs)
      else if c = CHR ''}'' then
        (if depth \<le> 1 then Some [c] else map_option ((#) c) (balanced_prefix (depth - 1) cs))
      else map_option ((#) c) (balanced_prefix depth cs))"

definition first_balanced_span :: "string \<Rightarrow> string option" where
  "first_balanced_span response = balanced_prefix 0 (dropWhile (\<lambda>c. c \<noteq> CHR ''{'') response)"

text \<open>
  A pass fails when the model call raises, when the decoder raises on the extracted
  text, or when what it decodes is not a dictionary.
\<close>

definition unusable :: "json_loads \<Rightarrow> error + string \<Rightarrow> bool" where
  "unusable loads response =
     (case response of
        Inl e \<Rightarrow> True
      | Inr reply \<Rightarrow>
          (case loads (json_str reply) of
             Inl e \<Rightarrow> True
           | Inr v \<Rightarrow> (case v of PDict kvs \<Rightarrow> False | _ \<Rightarrow> True)))"

section \<open>Properties of the assessment service\<close>

subsection \<open>What each pass returns and which calls it makes\<close>

lemma communication_calls [simp]:
  "snd (assess_communication model loads t xs calls) =
     calls @ [CommunicationPrompt t
                (words_per_minute (fst (speech_metrics (candidate_interactions xs) (0, 0, 0)))
                   (fst (snd (speech_metrics (candidate_interactions xs) (0, 0, 0)))))
                (snd (snd (speech_metrics (candidate_interactions xs) (0, 0, 0))))]"
  by (simp add: assess_communication_def ainvoke_def Let_def split: prod.splits sum.splits)

lemma content_calls [simp]:
  "snd (assess_content model loads t ty calls) = calls @ [ContentPrompt ty t]"
  by (simp add: assess_content_def ainvoke_def split: prod.splits sum.splits)

lemma behavioral_calls [simp]:
  "snd (assess_behavioral model loads t ty calls) =
     calls @ (if lower ty = ''behavioral'' then [BehavioralPrompt t] else [])"
  by (simp add: assess_behavioral_def ainvoke_def split: prod.splits sum.splits)

lemma feedback_calls [simp]:
  "snd (generate_overall_feedback model loads t ty comm cont behav calls) =
     calls @ [FeedbackPrompt ty (scores_summary comm cont) t]"
  by (simp add: generate_overall_feedback_def ainvoke_def split: prod.splits sum.splits)

lemma communication_result:
  "fst (assess_communication model loads t xs calls) =
     (let totals = speech_metrics (candidate_interactions xs) (0, 0, 0);
          wpm = words_per_minute (fst totals) (fst (snd totals));
          fillers = snd (snd totals)
      in case communication_scores_of loads wpm fillers
                (model (CommunicationPrompt t wpm fillers)) of
           Inr scores \<Rightarrow> scores
         | Inl e \<Rightarrow> communication_fallback wpm fillers)"
  by (simp add: assess_communication_def ainvoke_def Let_def split: prod.splits sum.splits)

lemma content_result:
  "fst (assess_content model loads t ty calls) =
     (case content_scores_of loads (model (ContentPrompt ty t)) of
        Inr scores \<Rightarrow> scores
      | Inl e \<Rightarrow> content_fallback)"
  by (simp add: assess_content_def ainvoke_def split: prod.splits sum.splits)

lemma behavioral_result:
  "fst (assess_behavioral model loads t ty calls) =
     (if lower ty \<noteq> ''behavioral'' then behavioral_not_applicable
      else case behavioral_scores_of loads (model (BehavioralPrompt t)) of
             Inr scores \<Rightarrow> scores
           | Inl e \<Rightarrow> behavioral_fallback)"
  by (simp add: assess_behavioral_def ainvoke_def split: prod.splits sum.splits)

lemma feedback_result:
  "fst (generate_overall_feedback model loads t ty comm cont behav calls) =
     (case feedback_of loads (model (FeedbackPrompt ty (scores_summary comm cont) t)) of
        Inr fb \<Rightarrow> fb
      | Inl e \<Rightarrow> feedback_fallback)"
  by (simp add: generate_overall_feedback_def ainvoke_def split: prod.splits sum.splits)

lemma assess_calls:
  "snd (assess_interview_session model loads (Some sess) xs) =
     snd (generate_overall_feedback model loads (build_transcript xs) (session_interview_type sess)
            (fst (assess_communication model loads (build_transcript xs) xs []))
            (fst (assess_content model loads (build_transcript xs) (session_interview_type sess) []))
            (fst (assess_behavioral model loads (build_transcript xs) (session_interview_type sess) []))
            (snd (assess_behavioral model loads (build_transcript xs) (session_interview_type sess)
               (snd (assess_content model loads (build_transcript xs) (session_interview_type sess)
                  (snd (assess_communication model loads (build_transcript xs) xs [])))))))"
  apply (simp add: assess_interview_session_def Let_def split_beta split: sum.splits)
  apply (simp add: content_result behavioral_result)
  done

subsection \<open>The transcript\<close>

lemma transcript_lines_map:
  "transcript_lines xs acc = acc @ map (\<lambda>i. role_label i @ '': '' @ content i) xs"
  by (induction xs arbitrary: acc) simp_all

lemma assess_calls_transcript:
  "p \<in> set (snd (assess_interview_session model loads (Some sess) interactions))
     \<Longrightarrow> prompt_transcript p = build_transcript interactions"
  by (auto simp: assess_interview_session_def assess_communication_def assess_content_def
        assess_behavioral_def generate_overall_feedback_def ainvoke_def Let_def prompt_transcript_def
      split: prod.splits sum.splits if_splits)

text \<open>
  C10. The transcript is the interactions' lines joined by a blank line; a line is labelled
  \<open>Interviewer\<close> exactly when the role is \<open>ASSISTANT\<close>, and every other role (\<open>USER\<close>, but
  also \<open>SYSTEM\<close> and \<open>TOOL\<close>) is labelled \<open>Candidate\<close>. Every prompt the assessment sends to
  the model, for scoring or for feedback, carries this transcript.
\<close>

theorem transcript_labels:
  "build_transcript interactions =
     str_join (nl @ nl)
       (map (\<lambda>i. (if role i = ASSISTANT then ''Interviewer'' else ''Candidate'') @ '': '' @ content i)
          interactions)
   \<and> (\<forall>i. role_label i = ''Interviewer'' \<longleftrightarrow> role i = ASSISTANT)
   \<and> (\<forall>i. role i \<in> {USER, SYSTEM, TOOL} \<longrightarrow> role_label i = ''Candidate'')
   \<and> (\<forall>p \<in> set (snd (assess_interview_session model loads (Some sess) interactions)).
         prompt_transcript p = build_transcript interactions)"
proof -
  have "build_transcript interactions =
     str_join (nl @ nl)
       (map (\<lambda>i. (if role i = ASSISTANT then ''Interviewer'' else ''Candidate'') @ '': '' @ content i)
          interactions)"
    by (simp add: build_transcript_def transcript_lines_map role_label_def)
  moreover have "\<forall>i. role_label i = ''Interviewer'' \<longleftrightarrow> role i = ASSISTANT"
    by (simp add: role_label_def)
  moreover have "\<forall>i. role i \<in> {USER, SYSTEM, TOOL} \<longrightarrow> role_label i = ''Candidate''"
    by (auto simp: role_label_def)
  ultimately show ?thesis
    using assess_calls_transcript by blast
qed

theorem transcript_labels_witness:
  "build_transcript example_interactions =
     ''Candidate: Session opened'' @ nl @ nl @ ''Interviewer: Tell me about a project.'' @ nl @ nl
     @ ''Candidate: Like totally, I liked it'' @ nl @ nl @ ''Candidate: lookup done''
   \<and> role_label \<lparr>role = TOOL, content = ''lookup done'', audio_duration_seconds = None\<rparr> = ''Candidate''
   \<and> ContentPrompt ''General'' (build_transcript example_interactions)
       \<in> set (snd (assess_interview_session failing_llm failing_loads
                      (Some \<lparr>session_interview_type = ''General''\<rparr>) example_interactions))
   \<and> prompt_transcript (ContentPrompt ''General'' (build_transcript example_interactions))
       = build_transcript example_interactions"
proof -
  have mem: "ContentPrompt ''General'' (build_transcript example_interactions)
       \<in> set (snd (assess_interview_session failing_llm failing_loads
                      (Some \<lparr>session_interview_type = ''General''\<rparr>) example_interactions))"
    by (simp add: assess_calls)
  have role: "role \<lparr>role = TOOL, content = ''lookup done'', audio_duration_seconds = None\<rparr>
                \<in> {USER, SYSTEM, TOOL}"
    by simp
  show ?thesis
    using transcript_labels[of example_interactions failing_llm failing_loads
            "\<lparr>session_interview_type = ''General''\<rparr>"] mem role
    by (simp add: example_interactions_def nl_def)
qed

subsection \<open>Words per minute\<close>





section \<open>Properties of the interview workflow\<close>

subsection \<open>What the nodes change\<close>

lemma conduct_frame:
  "conduct_interview_node model state =
     state\<lparr>messages := messages (conduct_interview_node model state)\<rparr>"
  by (simp add: conduct_interview_node_def split: sum.splits)

lemma conduct_counters [simp]:
  "current_question_count (conduct_interview_node model state) = current_question_count state"
  "max_questions (conduct_interview_node model state) = max_questions state"
  "session_status (conduct_interview_node model state) = session_status state"
  by (simp_all add: conduct_interview_node_def split: sum.splits)

lemma analyze_counters [simp]:
  "current_question_count (analyze_response_node utcnow state) = current_question_count state"
  "max_questions (analyze_response_node utcnow state) = max_questions state"
  "session_status (analyze_response_node utcnow state) = session_status state"
  by (simp_all add: analyze_response_node_def Let_def)

lemma check_counters [simp]:
  "current_question_count (check_completion_node state) = current_question_count state + 1"
  "max_questions (check_completion_node state) = max_questions state"
  "session_status (check_completion_node state) =
     (if max_questions state \<le> current_question_count state + 1 then ''completed''
      else session_status state)"
  by (simp_all add: check_completion_node_def Let_def)

lemma cycle_counters [simp]:
  "current_question_count (cycle model utcnow state) = current_question_count state + 1"
  "max_questions (cycle model utcnow state) = max_questions state"
  "session_status (cycle model utcnow state) =
     (if max_questions state \<le> current_question_count state + 1 then ''completed''
      else session_status state)"
  by (simp_all add: cycle_def)

lemma cycles_counters [simp]:
  "current_question_count ((cycle model utcnow ^^ k) state) = current_question_count state + int k"
  "max_questions ((cycle model utcnow ^^ k) state) = max_questions state"
  by (induction k) simp_all

lemma cycles_status:
  "current_question_count state + int k < max_questions state
     \<Longrightarrow> session_status ((cycle model utcnow ^^ k) state) = session_status state"
  by (induction k) simp_all

subsection \<open>Runs of the graph\<close>

lemma run_from_END [simp]: "run_from model utcnow END state = ([], state)"
  by (subst run_from.simps) simp

lemma run_from_feedback [simp]:
  "run_from model utcnow generate_feedback state =
     ([generate_feedback], generate_feedback_node model state)"
  by (subst run_from.simps) simp

lemma run_from_conduct:
  "run_from model utcnow conduct_interview state =
     (case run_from model utcnow
             (if should_continue (cycle model utcnow state) = ''continue'' then conduct_interview
              else generate_feedback)
             (cycle model utcnow state) of
        (trace, final) \<Rightarrow> (conduct_interview # analyze_response # check_completion # trace, final))"
proof -
  have conduct: "run_from model utcnow conduct_interview s =
      (case run_from model utcnow analyze_response (conduct_interview_node model s) of
         (trace, final) \<Rightarrow> (conduct_interview # trace, final))" for s
    by (subst run_from.simps) simp
  have analyze: "run_from model utcnow analyze_response s =
      (case run_from model utcnow check_completion (analyze_response_node utcnow s) of
         (trace, final) \<Rightarrow> (analyze_response # trace, final))" for s
    by (subst run_from.simps) simp
  have check: "run_from model utcnow check_completion s =
      (case run_from model utcnow (next_node check_completion (check_completion_node s))
              (check_completion_node s) of
         (trace, final) \<Rightarrow> (check_completion # trace, final))" for s
    by (subst run_from.simps) simp
  show ?thesis
    unfolding conduct analyze check cycle_def
    by (simp split: prod.splits)
qed

lemma run_from_prepare:
  "run_from model utcnow prepare_context state =
     (case run_from model utcnow conduct_interview (prepare_context_node state) of
        (trace, final) \<Rightarrow> (prepare_context # trace, final))"
  by (subst run_from.simps) simp

text \<open>
  The loop entered with an open status and \<open>r\<close> questions left runs exactly \<open>r\<close> cycles and
  then the feedback node.
\<close>

lemma run_loop:
  "session_status state \<noteq> ''completed''
     \<Longrightarrow> int (Suc r) = max_questions state - current_question_count state
     \<Longrightarrow> run_from model utcnow conduct_interview state =
           (concat (replicate (Suc r) [conduct_interview, analyze_response, check_completion])
              @ [generate_feedback],
            generate_feedback_node model ((cycle model utcnow ^^ Suc r) state))"
proof (induction r arbitrary: state)
  case 0
  then have "session_status (cycle model utcnow state) = ''completed''"
    by simp
  then show ?case
    by (subst run_from_conduct) (simp add: should_continue_def)
next
  case (Suc r)
  let ?s = "cycle model utcnow state"
  from Suc.prems have still_open: "session_status ?s \<noteq> ''completed''"
    by simp
  from Suc.prems have left: "int (Suc r) = max_questions ?s - current_question_count ?s"
    by simp
  have "run_from model utcnow conduct_interview ?s =
          (concat (replicate (Suc r) [conduct_interview, analyze_response, check_completion])
             @ [generate_feedback],
           generate_feedback_node model ((cycle model utcnow ^^ Suc r) ?s))"
    using Suc.IH [OF still_open left] .
  then show ?case
    using still_open
    by (subst run_from_conduct) (simp add: should_continue_def funpow_swap1)
qed

lemma length_cycles [simp]:
  "length (concat (replicate n [a, b, c])) = 3 * n"
  by (induction n) simp_all

lemma prepare_fields [simp]:
  "current_question_count (prepare_context_node state) = 0"
  "max_questions (prepare_context_node state) = 5"
  "session_status (prepare_context_node state) = ''active''"
  by (simp_all add: prepare_context_node_def)

text \<open>
  C2. Every run of the workflow starts, after the context step, with question count 0 and
  the maximum \<open>m\<close> that step fixes. Each conduct/analyze/check cycle adds exactly 1 to the
  count; after \<open>k \<le> m\<close> cycles the count is \<open>k\<close>; the edge out of the check leads to the
  feedback step exactly after the \<open>m\<close>-th cycle, never before; and the run is the context
  step, \<open>m\<close> cycles and the feedback step, after which it has ended.
\<close>

theorem workflow_question_budget:
  "current_question_count (prepare_context_node s0) = 0
   \<and> (\<forall>s. current_question_count (cycle model utcnow s) = current_question_count s + 1)
   \<and> (\<forall>k \<le> nat (max_questions (prepare_context_node s0)).
         current_question_count ((cycle model utcnow ^^ k) (prepare_context_node s0)) = int k)
   \<and> (\<forall>k. 1 \<le> k \<and> k \<le> nat (max_questions (prepare_context_node s0)) \<longrightarrow>
         (next_node check_completion ((cycle model utcnow ^^ k) (prepare_context_node s0))
            = generate_feedback
          \<longleftrightarrow> k = nat (max_questions (prepare_context_node s0))))
   \<and> run_workflow model utcnow s0 =
        (prepare_context
           # concat (replicate (nat (max_questions (prepare_context_node s0)))
                       [conduct_interview, analyze_response, check_completion])
           @ [generate_feedback],
         generate_feedback_node model
           ((cycle model utcnow ^^ nat (max_questions (prepare_context_node s0)))
              (prepare_context_node s0)))
   \<and> length (fst (run_workflow model utcnow s0))
        = 3 * nat (max_questions (prepare_context_node s0)) + 2"
proof -
  let ?s1 = "prepare_context_node s0"
  have edge: "next_node check_completion ((cycle model utcnow ^^ k) ?s1) = generate_feedback
                \<longleftrightarrow> k = 5" if "1 \<le> k" "k \<le> 5" for k
  proof (cases k)
    case 0
    with that show ?thesis by simp
  next
    case (Suc j)
    have "session_status ((cycle model utcnow ^^ Suc j) ?s1) =
            (if 5 \<le> int j + 1 then ''completed''
             else session_status ((cycle model utcnow ^^ j) ?s1))"
      by simp
    moreover have "session_status ((cycle model utcnow ^^ j) ?s1) = ''active''"
      using that Suc cycles_status [of ?s1 j model utcnow] by simp
    ultimately show ?thesis
      using Suc that by (auto simp: should_continue_def)
  qed
  have run: "run_from model utcnow conduct_interview ?s1 =
          (concat (replicate (Suc 4) [conduct_interview, analyze_response, check_completion])
             @ [generate_feedback],
           generate_feedback_node model ((cycle model utcnow ^^ Suc 4) ?s1))"
    by (rule run_loop) simp_all
  have five: "Suc 4 = 5"
    by simp
  show ?thesis
    using edge by (simp add: run_workflow_def entry_point_def run_from_prepare run five)
qed

theorem workflow_question_budget_witness:
  "(3::nat) \<le> nat (max_questions (prepare_context_node example_state))
   \<and> current_question_count
        ((cycle failing_chat example_clock ^^ 3) (prepare_context_node example_state)) = 3
   \<and> next_node check_completion
        ((cycle failing_chat example_clock ^^ 3) (prepare_context_node example_state))
       \<noteq> generate_feedback
   \<and> length (fst (run_workflow failing_chat example_clock example_state)) = 17"
proof -
  note budget = workflow_question_budget [of example_state failing_chat example_clock]
  have le: "(3::nat) \<le> nat (max_questions (prepare_context_node example_state))"
    by simp
  have count: "current_question_count
        ((cycle failing_chat example_clock ^^ 3) (prepare_context_node example_state)) = int 3"
    using budget le by blast
  have edge: "next_node check_completion
        ((cycle failing_chat example_clock ^^ 3) (prepare_context_node example_state))
       = generate_feedback \<longleftrightarrow> (3::nat) = nat (max_questions (prepare_context_node example_state))"
    using budget le by (metis one_le_numeral)
  have len: "length (fst (run_workflow failing_chat example_clock example_state))
        = 3 * nat (max_questions (prepare_context_node example_state)) + 2"
    using budget by blast
  show ?thesis
    using le count edge len by simp
qed

subsection \<open>The conduct step\<close>

text \<open>
  C6. The conduct step only appends: the old history is a prefix of the new one, which is
  one message longer. When the model call fails the appended message is the fixed apology
  (nothing is raised); when it succeeds it is the model's reply. The question count and
  every other field of the state are left as they were.
\<close>

theorem conduct_interview_additive:
  "prefix (messages state) (messages (conduct_interview_node model state))
   \<and> length (messages (conduct_interview_node model state)) = length (messages state) + 1
   \<and> (\<forall>e. model ([system_message state] @ messages state) = Inl e \<longrightarrow>
         messages (conduct_interview_node model state) =
           messages state
             @ [AIMessage ''I apologize, but I encountered an error. Let's continue.''])
   \<and> (\<forall>response. model ([system_message state] @ messages state) = Inr response \<longrightarrow>
         messages (conduct_interview_node model state) = messages state @ [response])
   \<and> current_question_count (conduct_interview_node model state) = current_question_count state
   \<and> conduct_interview_node model state =
        state\<lparr>messages := messages (conduct_interview_node model state)\<rparr>"
  by (cases "model ([system_message state] @ messages state)")
     (simp_all add: conduct_interview_node_def error_message_def)

theorem conduct_interview_additive_witness:
  "failing_chat ([system_message example_state] @ messages example_state) = Inl ExternalError
   \<and> messages (conduct_interview_node failing_chat example_state) =
       [HumanMessage ''Hello, I am ready.'',
        AIMessage ''I apologize, but I encountered an error. Let's continue.'']"
proof -
  have fails: "failing_chat ([system_message example_state] @ messages example_state)
                 = Inl ExternalError"
    by (simp add: failing_chat_def)
  have "messages (conduct_interview_node failing_chat example_state) =
          messages example_state
            @ [AIMessage ''I apologize, but I encountered an error. Let's continue.'']"
    using conduct_interview_additive [of example_state failing_chat] fails by blast
  then show ?thesis
    using fails by (simp add: example_state_def)
qed

subsection \<open>The overall score\<close>

lemma py_add_numbers:
  "num_of a = Some x \<Longrightarrow> num_of b = Some y \<Longrightarrow> py_add a b = Inr (PNum (x + y))"
  by (cases a; cases b) simp_all

lemma py_truediv_number [simp]: "py_truediv (PNum x) n = Inr (x / n)"
  by (simp add: py_truediv_def)

lemma and_then_Inr [simp]: "and_then (Inr v) f = f v"
  by (simp add: and_then_def)

lemma and_then_Inl [simp]: "and_then (Inl e) f = Inl e"
  by (simp add: and_then_def)

lemma mean3:
  assumes "score_of d k1 = Some x1" "score_of d k2 = Some x2" "score_of d k3 = Some x3"
  shows "and_then (py_add (dict_get d k1 (PNum 0)) (dict_get d k2 (PNum 0))) (\<lambda>s2.
         and_then (py_add s2 (dict_get d k3 (PNum 0))) (\<lambda>s3.
         and_then (py_truediv s3 3) f)) = f ((x1 + x2 + x3) / 3)"
  using assms by (simp add: score_of_def py_add_numbers)

lemma mean4:
  assumes "score_of d k1 = Some x1" "score_of d k2 = Some x2" "score_of d k3 = Some x3"
    "score_of d k4 = Some x4"
  shows "and_then (py_add (dict_get d k1 (PNum 0)) (dict_get d k2 (PNum 0))) (\<lambda>s2.
         and_then (py_add s2 (dict_get d k3 (PNum 0))) (\<lambda>s3.
         and_then (py_add s3 (dict_get d k4 (PNum 0))) (\<lambda>s4.
         and_then (py_truediv s4 4) f))) = f ((x1 + x2 + x3 + x4) / 4)"
  using assms by (simp add: score_of_def py_add_numbers)

lemma overall_without_behavioral:
  assumes "score_of comm ''clarity_score'' = Some c1"
    "score_of comm ''confidence_score'' = Some c2"
    "score_of comm ''pace_score'' = Some c3"
    "score_of cont ''technical_accuracy_score'' = Some t1"
    "score_of cont ''problem_solving_score'' = Some t2"
    "score_of cont ''structure_score'' = Some t3"
    "score_of cont ''relevance_score'' = Some t4"
    "dict_get behav ''star_method_score'' PNone = PNone"
  shows "calculate_overall_score comm cont behav =
           Inr (py_round2 (30 / 100 * ((c1 + c2 + c3) / 3) + 50 / 100 * ((t1 + t2 + t3 + t4) / 4)))"
  unfolding calculate_overall_score_def
  using assms(8)
  apply (simp add: mean3 [OF assms(1-3)] mean4 [OF assms(4-7)] Let_def)
  apply (rule arg_cong [where f = py_round2])
  apply (simp add: field_simps)
  done

lemma overall_with_behavioral:
  assumes "score_of comm ''clarity_score'' = Some c1"
    "score_of comm ''confidence_score'' = Some c2"
    "score_of comm ''pace_score'' = Some c3"
    "score_of cont ''technical_accuracy_score'' = Some t1"
    "score_of cont ''problem_solving_score'' = Some t2"
    "score_of cont ''structure_score'' = Some t3"
    "score_of cont ''relevance_score'' = Some t4"
    "dict_get behav ''star_method_score'' PNone \<noteq> PNone"
    "score_of behav ''star_method_score'' = Some b1"
    "score_of behav ''leadership_score'' = Some b2"
    "score_of behav ''teamwork_score'' = Some b3"
  shows "calculate_overall_score comm cont behav =
           Inr (py_round2 (30 / 100 * ((c1 + c2 + c3) / 3) + 50 / 100 * ((t1 + t2 + t3 + t4) / 4)
                           + 20 / 100 * ((b1 + b2 + b3) / 3)))"
  unfolding calculate_overall_score_def
  using assms(8)
  apply (simp add: mean3 [OF assms(1-3)] mean4 [OF assms(4-7)] mean3 [OF assms(9-11)] Let_def)
  apply (rule arg_cong [where f = py_round2])
  apply (simp add: field_simps)
  done






subsection \<open>Extraction of the JSON payload\<close>

lemma find_from_first:
  "c \<notin> set pre \<Longrightarrow> find_from c (pre @ c # rest) i = i + int (length pre)"
  by (induction pre arbitrary: i) auto

lemma find_from_absent: "c \<notin> set s \<Longrightarrow> find_from c s i = - 1"
  by (induction s arbitrary: i) auto

lemma py_find_first: "c \<notin> set pre \<Longrightarrow> py_find c (pre @ c # rest) = int (length pre)"
  by (simp add: py_find_def find_from_first)

lemma py_rfind_last:
  "c \<notin> set post \<Longrightarrow> py_rfind c (pre @ c # post) = int (length pre)"
  using py_find_first [of c "rev post" "rev pre"]
  by (simp add: py_rfind_def Let_def)

lemma py_rfind_absent: "c \<notin> set s \<Longrightarrow> py_rfind c s = - 1"
  by (simp add: py_rfind_def py_find_def find_from_absent)

lemma json_str_span:
  assumes "CHR ''{'' \<notin> set pre" and "CHR ''}'' \<notin> set post"
  shows "json_str (pre @ ''{'' @ mid @ ''}'' @ post) = ''{'' @ mid @ ''}''"
proof -
  have start: "py_find (CHR ''{'') (pre @ CHR ''{'' # mid @ CHR ''}'' # post) = int (length pre)"
    using py_find_first [OF assms(1), of "mid @ CHR ''}'' # post"] by simp
  have stop: "py_rfind (CHR ''}'') (pre @ CHR ''{'' # mid @ CHR ''}'' # post)
                = int (length pre) + 1 + int (length mid)"
    using py_rfind_last [OF assms(2), of "pre @ CHR ''{'' # mid"] by simp
  have len: "nat (2 + int (length mid)) = Suc (Suc (length mid))"
    by simp
  show ?thesis
    by (simp add: json_str_def start stop py_slice_def Let_def len)
qed

lemma json_str_whole:
  assumes "CHR ''{'' \<notin> set response \<or> CHR ''}'' \<notin> set (dropWhile (\<lambda>c. c \<noteq> CHR ''{'') response)"
  shows "json_str response = response"
proof (cases "CHR ''{'' \<in> set response")
  case False
  then show ?thesis
    by (simp add: json_str_def py_find_def find_from_absent Let_def)
next
  case True
  then obtain pre rest where split: "response = pre @ CHR ''{'' # rest" "CHR ''{'' \<notin> set pre"
    by (meson split_list_first)
  then have "dropWhile (\<lambda>c. c \<noteq> CHR ''{'') response = CHR ''{'' # rest"
    by (auto simp: dropWhile_append)
  with assms True have no_close: "CHR ''}'' \<notin> set rest"
    by simp
  have start: "py_find (CHR ''{'') response = int (length pre)"
    using split py_find_first by simp
  show ?thesis
  proof (cases "CHR ''}'' \<in> set pre")
    case False
    with no_close split have "CHR ''}'' \<notin> set response"
      by simp
    then show ?thesis
      by (simp add: json_str_def start py_rfind_absent Let_def)
  next
    case True
    then obtain a b where pre: "pre = a @ CHR ''}'' # b" "CHR ''}'' \<notin> set b"
      by (meson split_list_last)
    have "py_rfind (CHR ''}'') response = int (length a)"
      using py_rfind_last [of "CHR ''}''" "b @ CHR ''{'' # rest" a] pre no_close split
      by simp
    then show ?thesis
      using pre by (simp add: json_str_def start Let_def)
  qed
qed

lemma parse_failure_empty:
  "loads (json_str text) = Inl e \<Longrightarrow> parse_json_response loads text = PDict []"
  by (simp add: parse_json_response_def)

lemma communication_on_parse_failure:
  "loads (json_str text) = Inl e
     \<Longrightarrow> communication_scores_of loads wpm fillers (Inr text) = Inr (communication_fallback wpm fillers)"
  by (simp add: communication_scores_of_def parse_failure_empty communication_fallback_def
        dict_get_def)

lemma content_on_parse_failure:
  "loads (json_str text) = Inl e \<Longrightarrow> content_scores_of loads (Inr text) = Inr content_fallback"
  by (simp add: content_scores_of_def parse_failure_empty content_fallback_def dict_get_def)

lemma behavioral_on_parse_failure:
  "loads (json_str text) = Inl e \<Longrightarrow> behavioral_scores_of loads (Inr text) = Inr behavioral_fallback"
  by (simp add: behavioral_scores_of_def parse_failure_empty behavioral_fallback_def dict_get_def)

text \<open>
  C3. Stated as in the specification, the claim fails: the text handed to the decoder is
  not the first balanced span. For a reply with two brace groups the code takes everything
  from the first opening brace to the last closing brace.
\<close>

theorem json_span_counterexample:
  "Some (json_str ''Scores: {a} (scale {b})'') \<noteq> first_balanced_span ''Scores: {a} (scale {b})''"
  by (simp add: json_str_def py_find_def py_rfind_def py_slice_def first_balanced_span_def)

text \<open>
  C3, as amended. The text handed to the decoder runs from the first opening brace to the
  last closing brace of the reply, and is the whole reply when there is no closing brace
  behind the first opening one. \<open>_parse_json_response\<close> returns what the decoder returns,
  and the empty dictionary when the decoder raises; in that case each of the three scoring
  passes returns its fallback dictionary.
\<close>

theorem json_extraction_first_to_last_brace:
  "(CHR ''{'' \<notin> set pre \<and> CHR ''}'' \<notin> set post \<longrightarrow>
      json_str (pre @ ''{'' @ mid @ ''}'' @ post) = ''{'' @ mid @ ''}'')
   \<and> (CHR ''{'' \<notin> set response
        \<or> CHR ''}'' \<notin> set (dropWhile (\<lambda>c. c \<noteq> CHR ''{'') response) \<longrightarrow>
      json_str response = response)
   \<and> (\<forall>v. loads (json_str reply) = Inr v \<longrightarrow> parse_json_response loads reply = v)
   \<and> (\<forall>e. loads (json_str reply) = Inl e \<longrightarrow>
         parse_json_response loads reply = PDict []
         \<and> communication_scores_of loads wpm fillers (Inr reply)
             = Inr (communication_fallback wpm fillers)
         \<and> content_scores_of loads (Inr reply) = Inr content_fallback
         \<and> behavioral_scores_of loads (Inr reply) = Inr behavioral_fallback)"
  using json_str_span [of pre post mid] json_str_whole [of response]
    parse_failure_empty [of loads reply] communication_on_parse_failure [of loads reply]
    content_on_parse_failure [of loads reply] behavioral_on_parse_failure [of loads reply]
  by (auto simp: parse_json_response_def)

theorem json_extraction_first_to_last_brace_witness:
  "json_str ''Scores: {a} (scale {b})'' = ''{a} (scale {b}''
   \<and> json_str ''} no payload {'' = ''} no payload {''
   \<and> content_scores_of failing_loads (Inr ''} no payload {'') = Inr content_fallback"
proof -
  note inst = json_extraction_first_to_last_brace
    [of "''Scores: ''" "'')''" "''a} (scale {b''" "''} no payload {''" failing_loads
        "''} no payload {''"]
  have pre: "CHR ''{'' \<notin> set ''Scores: '' \<and> CHR ''}'' \<notin> set '')''"
    by simp
  have none: "CHR ''{'' \<notin> set ''} no payload {''
          \<or> CHR ''}'' \<notin> set (dropWhile (\<lambda>c. c \<noteq> CHR ''{'') ''} no payload {'')"
    by simp
  have fails: "failing_loads (json_str ''} no payload {'') = Inl JSONDecodeError"
    by (simp add: failing_loads_def)
  have "json_str (''Scores: '' @ ''{'' @ ''a} (scale {b'' @ ''}'' @ '')'')
          = ''{'' @ ''a} (scale {b'' @ ''}''"
    using inst pre by blast
  moreover have "json_str ''} no payload {'' = ''} no payload {''"
    using inst none by blast
  moreover have "content_scores_of failing_loads (Inr ''} no payload {'') = Inr content_fallback"
    using inst fails by blast
  ultimately show ?thesis
    by simp
qed

subsection \<open>The assessment as a whole\<close>

lemma assess_result:
  "fst (assess_interview_session model loads (Some sess) xs) =
     (case calculate_overall_score
             (fst (assess_communication model loads (build_transcript xs) xs []))
             (fst (assess_content model loads (build_transcript xs) (session_interview_type sess) []))
             (fst (assess_behavioral model loads (build_transcript xs) (session_interview_type sess) []))
      of
        Inl e \<Rightarrow> Inl e
      | Inr overall \<Rightarrow>
          Inr \<lparr>overall_score = overall,
               communication_scores =
                 fst (assess_communication model loads (build_transcript xs) xs []),
               content_scores =
                 fst (assess_content model loads (build_transcript xs) (session_interview_type sess) []),
               behavioral_scores =
                 fst (assess_behavioral model loads (build_transcript xs)
                        (session_interview_type sess) []),
               feedback =
                 fst (generate_overall_feedback model loads (build_transcript xs)
                        (session_interview_type sess)
                        (fst (assess_communication model loads (build_transcript xs) xs []))
                        (fst (assess_content model loads (build_transcript xs)
                                (session_interview_type sess) []))
                        (fst (assess_behavioral model loads (build_transcript xs)
                                (session_interview_type sess) []))
                        [])\<rparr>)"
  by (simp add: assess_interview_session_def Let_def split_beta content_result behavioral_result
        feedback_result split: sum.splits)

lemma attr_get_not_dict:
  "(case v of PDict kvs \<Rightarrow> False | _ \<Rightarrow> True) \<Longrightarrow> attr_get v k d = Inl AttributeError"
  by (cases v) simp_all

lemma communication_unusable:
  assumes "unusable loads response"
  shows "(case communication_scores_of loads wpm fillers response of
            Inr scores \<Rightarrow> scores
          | Inl e \<Rightarrow> communication_fallback wpm fillers) = communication_fallback wpm fillers"
proof (cases response)
  case (Inl e)
  then show ?thesis
    by (simp add: communication_scores_of_def)
next
  case (Inr reply)
  show ?thesis
  proof (cases "loads (json_str reply)")
    case (Inl e)
    then show ?thesis
      using Inr communication_on_parse_failure [of loads reply e wpm fillers] by simp
  next
    case decoded: (Inr v)
    with assms Inr have "attr_get v ''clarity'' (PNum 70) = Inl AttributeError"
      by (simp add: unusable_def attr_get_not_dict)
    then show ?thesis
      using Inr decoded by (simp add: communication_scores_of_def parse_json_response_def)
  qed
qed

lemma content_unusable:
  assumes "unusable loads response"
  shows "(case content_scores_of loads response of
            Inr scores \<Rightarrow> scores
          | Inl e \<Rightarrow> content_fallback) = content_fallback"
proof (cases response)
  case (Inl e)
  then show ?thesis
    by (simp add: content_scores_of_def)
next
  case (Inr reply)
  show ?thesis
  proof (cases "loads (json_str reply)")
    case (Inl e)
    then show ?thesis
      using Inr content_on_parse_failure [of loads reply e] by simp
  next
    case decoded: (Inr v)
    with assms Inr have "attr_get v ''technical_accuracy'' (PNum 70) = Inl AttributeError"
      by (simp add: unusable_def attr_get_not_dict)
    then show ?thesis
      using Inr decoded by (simp add: content_scores_of_def parse_json_response_def)
  qed
qed

lemma behavioral_unusable:
  assumes "unusable loads response"
  shows "(case behavioral_scores_of loads response of
            Inr scores \<Rightarrow> scores
          | Inl e \<Rightarrow> behavioral_fallback) = behavioral_fallback"
proof (cases response)
  case (Inl e)
  then show ?thesis
    by (simp add: behavioral_scores_of_def)
next
  case (Inr reply)
  show ?thesis
  proof (cases "loads (json_str reply)")
    case (Inl e)
    then show ?thesis
      using Inr behavioral_on_parse_failure [of loads reply e] by simp
  next
    case decoded: (Inr v)
    with assms Inr have "attr_get v ''star_method'' (PNum 70) = Inl AttributeError"
      by (simp add: unusable_def attr_get_not_dict)
    then show ?thesis
      using Inr decoded by (simp add: behavioral_scores_of_def parse_json_response_def)
  qed
qed

lemma communication_pass_fallback:
  assumes "speech_metrics (candidate_interactions xs) (0, 0, 0) = (w, d, f)"
    and "unusable loads (model (CommunicationPrompt t (words_per_minute w d) f))"
  shows "fst (assess_communication model loads t xs calls)
           = communication_fallback (words_per_minute w d) f"
  using communication_unusable [OF assms(2), of "words_per_minute w d" f]
  by (simp add: communication_result Let_def assms(1) cong: sum.case_cong)

lemma content_pass_fallback:
  "unusable loads (model (ContentPrompt ty t))
     \<Longrightarrow> fst (assess_content model loads t ty calls) = content_fallback"
  using content_unusable by (simp add: content_result)

lemma behavioral_pass_fallback:
  "lower ty = ''behavioral'' \<Longrightarrow> unusable loads (model (BehavioralPrompt t))
     \<Longrightarrow> fst (assess_behavioral model loads t ty calls) = behavioral_fallback"
  using behavioral_unusable by (simp add: behavioral_result)

lemma overall_score_defined:
  assumes "\<forall>k \<in> {''clarity_score'', ''confidence_score'', ''pace_score''}. score_of comm k \<noteq> None"
    and "\<forall>k \<in> {''technical_accuracy_score'', ''problem_solving_score'', ''structure_score'',
                 ''relevance_score''}. score_of cont k \<noteq> None"
    and "dict_get behav ''star_method_score'' PNone = PNone
         \<or> (\<forall>k \<in> {''star_method_score'', ''leadership_score'', ''teamwork_score''}.
               score_of behav k \<noteq> None)"
  shows "\<exists>overall. calculate_overall_score comm cont behav = Inr overall"
proof -
  from assms(1) obtain c1 c2 c3 where c:
    "score_of comm ''clarity_score'' = Some c1" "score_of comm ''confidence_score'' = Some c2"
    "score_of comm ''pace_score'' = Some c3"
    by auto
  from assms(2) obtain t1 t2 t3 t4 where t:
    "score_of cont ''technical_accuracy_score'' = Some t1"
    "score_of cont ''problem_solving_score'' = Some t2"
    "score_of cont ''structure_score'' = Some t3" "score_of cont ''relevance_score'' = Some t4"
    by auto
  show ?thesis
  proof (cases "dict_get behav ''star_method_score'' PNone = PNone")
    case True
    then show ?thesis
      using overall_without_behavioral [OF c t] by blast
  next
    case False
    with assms(3) obtain b1 b2 b3 where
      "score_of behav ''star_method_score'' = Some b1"
      "score_of behav ''leadership_score'' = Some b2" "score_of behav ''teamwork_score'' = Some b3"
      by auto
    then show ?thesis
      using overall_with_behavioral [OF c t False] by blast
  qed
qed

lemma fallback_scores [simp]:
  "score_of (communication_fallback wpm f) ''clarity_score'' = Some 70"
  "score_of (communication_fallback wpm f) ''confidence_score'' = Some 70"
  "score_of (communication_fallback wpm f) ''pace_score'' = Some 70"
  "score_of content_fallback ''technical_accuracy_score'' = Some 70"
  "score_of content_fallback ''problem_solving_score'' = Some 70"
  "score_of content_fallback ''structure_score'' = Some 70"
  "score_of content_fallback ''relevance_score'' = Some 70"
  "score_of behavioral_fallback ''star_method_score'' = Some 70"
  "score_of behavioral_fallback ''leadership_score'' = Some 70"
  "score_of behavioral_fallback ''teamwork_score'' = Some 70"
  by (simp_all add: score_of_def dict_get_def communication_fallback_def content_fallback_def
        behavioral_fallback_def)

end
